theory Spec2Isabelle
  imports Complex_Main
begin

section \<open>create\_globe: a shallow embedding\<close>

text \<open>
  The repository holds two versions of the same command-line script:
  \<^item> \<^verbatim>\<open>src/unnamed/part_000\<close>, which highlights a list of ISO3 codes, and
  \<^item> \<^verbatim>\<open>src/globe/create_globe.js\<close>, which highlights one ISO3 code.

  Both parse \<^verbatim>\<open>process.argv\<close>, load a TopoJSON file, and write SVG files.
  The libraries they call (d3-geo, d3-selection, jsdom, topojson-client, \<^verbatim>\<open>fs\<close>,
  \<^verbatim>\<open>path\<close>, \<^verbatim>\<open>JSON\<close>) are not part of the repository: they are parameters
  of the model, collected in the record \<open>env\<close>.

  Conventions.
  \<^item> Argument text is ASCII: \<open>trim\<close> strips the ASCII white space characters and
    \<open>toUpperCase\<close> maps \<open>a..z\<close> to \<open>A..Z\<close>.
  \<^item> JavaScript numbers are real numbers here; \<open>parseInt\<close> returns the exact integer
    (IEEE rounding of integers beyond \<open>2^53\<close> is not modelled), \<open>NaN\<close> is \<open>None\<close>.
  \<^item> \<^verbatim>\<open>console\<close> output is a list of events, in the order they are printed.
  \<^item> \<^verbatim>\<open>process.exit\<close> and an uncaught exception end the run: every stage returns
    \<open>Inl\<close> of how the process halted, or \<open>Inr\<close> of its result.
\<close>

subsection \<open>Strings\<close>

definition isWhiteSpace :: "char \<Rightarrow> bool" where
  "isWhiteSpace c = (c \<in> set [CHR 0x09, CHR 0x0A, CHR 0x0B, CHR 0x0C, CHR 0x0D, CHR '' ''])"

definition isDigit :: "char \<Rightarrow> bool" where
  "isDigit c = ((48::nat) \<le> of_char c \<and> of_char c \<le> (57::nat))"

text \<open>\<^verbatim>\<open>s.trim()\<close>\<close>
definition trim :: "string \<Rightarrow> string" where
  "trim s = rev (dropWhile isWhiteSpace (rev (dropWhile isWhiteSpace s)))"

definition upperChar :: "char \<Rightarrow> char" where
  "upperChar c =
     (if (97::nat) \<le> of_char c \<and> of_char c \<le> (122::nat) then char_of (of_char c - (32::nat)) else c)"

text \<open>\<^verbatim>\<open>s.toUpperCase()\<close>\<close>
definition toUpperCase :: "string \<Rightarrow> string" where
  "toUpperCase s = map upperChar s"

text \<open>\<^verbatim>\<open>s.split(',')\<close>: the empty string splits into one empty piece.\<close>
fun split_comma :: "string \<Rightarrow> string list" where
  "split_comma [] = [[]]"
| "split_comma (c # cs) =
     (if c = CHR '','' then [] # split_comma cs
      else (case split_comma cs of
              [] \<Rightarrow> [[c]]
            | p # ps \<Rightarrow> (c # p) # ps))"

text \<open>\<^verbatim>\<open>xs.join(',')\<close>\<close>
fun join_comma :: "string list \<Rightarrow> string" where
  "join_comma [] = []"
| "join_comma [x] = x"
| "join_comma (x # y # ys) = x @ '','' @ join_comma (y # ys)"

definition digitsValue :: "string \<Rightarrow> int" where
  "digitsValue ds = foldl (\<lambda>acc c. 10 * acc + (int (of_char c) - 48)) 0 ds"

text \<open>
  \<^verbatim>\<open>parseInt(x, 10)\<close>. The argument is \<^verbatim>\<open>argv[++i]\<close>: a string, or
  \<^verbatim>\<open>undefined\<close> (\<open>None\<close>) past the end of the array, which is converted to the
  text \<^verbatim>\<open>"undefined"\<close> and has no leading digit. Leading white space is skipped, one
  sign is read, and the longest run of decimal digits is the value; no digit gives
  \<^verbatim>\<open>NaN\<close>.
\<close>
definition parseInt :: "string option \<Rightarrow> int option" where
  "parseInt x =
     (case x of
        None \<Rightarrow> None
      | Some s \<Rightarrow>
          (let t = dropWhile isWhiteSpace s;
               neg = (case t of [] \<Rightarrow> False | c # _ \<Rightarrow> c = CHR ''-'');
               u = (case t of [] \<Rightarrow> [] | c # r \<Rightarrow> if c = CHR ''-'' \<or> c = CHR ''+'' then r else t);
               ds = takeWhile isDigit u
           in if ds = [] then None
              else Some (if neg then - digitsValue ds else digitsValue ds)))"

subsection \<open>Console, halting, the world\<close>

datatype jsval = VUndefined | VNull | VBool bool | VNum real | VStr string

datatype stream = Stdout | Stderr

text \<open>The texts the scripts print; the emoji prefixes are left out.\<close>
datatype message =
    HelpText
  | UnrecognizedOption string
  | TopoJSONNotFound string
  | NoTopologyObjects
  | CodeNotFound jsval
  | CreatedDirectory string
  | Written string

datatype exn = SyntaxError | TypeError | FsError

datatype halt = Exit int | Uncaught exn

datatype fscall = MkdirRecursive string | WriteFile string string

text \<open>
  The world a run acts on: the file system (of a type the model does not fix), what
  was printed, and the mutating file-system calls that succeeded, in order.
\<close>
record 'fs world =
  fs :: 'fs
  console :: "(stream \<times> message) list"
  calls :: "fscall list"

text \<open>\<^verbatim>\<open>console.log\<close> prints to stdout, \<^verbatim>\<open>console.warn\<close> and \<^verbatim>\<open>console.error\<close> to stderr.\<close>
definition console_log :: "message \<Rightarrow> 'fs world \<Rightarrow> 'fs world" where
  "console_log m w = w\<lparr>console := console w @ [(Stdout, m)]\<rparr>"

definition console_warn :: "message \<Rightarrow> 'fs world \<Rightarrow> 'fs world" where
  "console_warn m w = w\<lparr>console := console w @ [(Stderr, m)]\<rparr>"

definition console_error :: "message \<Rightarrow> 'fs world \<Rightarrow> 'fs world" where
  "console_error m w = w\<lparr>console := console w @ [(Stderr, m)]\<rparr>"

subsection \<open>Command line (lines 60--105 of part\_000)\<close>

record cli =
  iso3List :: "string list"
  width :: int
  height :: int
  output' :: "string option"
  outdir :: "string option"
  all :: bool

text \<open>The \<^verbatim>\<open>let\<close> declarations: \<^verbatim>\<open>output\<close> starts undefined, \<^verbatim>\<open>outdir\<close> null.\<close>
definition cli0 :: cli where
  "cli0 = \<lparr>iso3List = [''ETH''], width = 800, height = 800,
           output' = None, outdir = None, all = False\<rparr>"

text \<open>\<^verbatim>\<open>argv[++i]\<close>, read from the arguments after the option.\<close>
definition nextArg :: "string list \<Rightarrow> string option" where
  "nextArg rest = (case rest of [] \<Rightarrow> None | v # _ \<Rightarrow> Some v)"

text \<open>\<^verbatim>\<open>argv[++i] || dflt\<close>: undefined and the empty string are falsy.\<close>
definition orElse :: "string option \<Rightarrow> 'a \<Rightarrow> (string \<Rightarrow> 'a) \<Rightarrow> 'a" where
  "orElse x dflt f = (case x of None \<Rightarrow> dflt | Some s \<Rightarrow> if s = [] then dflt else f s)"

text \<open>\<^verbatim>\<open>parseInt(argv[++i], 10) || current\<close>: \<^verbatim>\<open>NaN\<close> and 0 are falsy.\<close>
definition intOr :: "string option \<Rightarrow> int \<Rightarrow> int" where
  "intOr x current = (case parseInt x of None \<Rightarrow> current | Some n \<Rightarrow> if n = 0 then current else n)"

definition takesValue :: "string \<Rightarrow> bool" where
  "takesValue a = (a \<in> set [''--iso3'', ''-i'', ''--width'', ''-w'', ''--height'',
                            ''--output'', ''-o'', ''--outdir'', ''-d''])"

text \<open>What one value-taking \<^verbatim>\<open>case\<close> of the \<^verbatim>\<open>switch\<close> assigns.\<close>
definition setOption :: "string \<Rightarrow> string option \<Rightarrow> cli \<Rightarrow> cli" where
  "setOption a v c =
     (if a = ''--iso3'' \<or> a = ''-i'' then
        c\<lparr>iso3List := map (\<lambda>s. toUpperCase (trim s))
                          (split_comma (orElse v (join_comma (iso3List c)) (\<lambda>s. s)))\<rparr>
      else if a = ''--width'' \<or> a = ''-w'' then c\<lparr>width := intOr v (width c)\<rparr>
      else if a = ''--height'' then c\<lparr>height := intOr v (height c)\<rparr>
      else if a = ''--output'' \<or> a = ''-o'' then c\<lparr>output' := orElse v (output' c) Some\<rparr>
      else if a = ''--outdir'' \<or> a = ''-d'' then c\<lparr>outdir := orElse v (outdir c) Some\<rparr>
      else c)"

text \<open>
  The \<^verbatim>\<open>for\<close> loop over \<^verbatim>\<open>argv\<close>. \<^verbatim>\<open>--help\<close> prints the usage and exits with
  status 0 at once. A value-taking option reads \<^verbatim>\<open>argv[++i]\<close>, so the loop goes on
  after that element (\<open>drop 1\<close>: there may be none).
\<close>
fun parseArgs :: "string list \<Rightarrow> cli \<Rightarrow> 'fs world \<Rightarrow> (halt + cli) \<times> 'fs world" where
  "parseArgs [] c w = (Inr c, w)"
| "parseArgs (a # rest) c w =
     (if a = ''--help'' then (Inl (Exit 0), console_log HelpText w)
      else if takesValue a then parseArgs (drop 1 rest) (setOption a (nextArg rest) c) w
      else if a = ''--all'' then parseArgs rest (c\<lparr>all := True\<rparr>) w
      else parseArgs rest c (console_warn (UnrecognizedOption a) w))"

text \<open>Lines 99--105: the default output name when not in batch mode.\<close>
definition defaultOutput :: "cli \<Rightarrow> cli" where
  "defaultOutput c =
     (if \<not> all c then
        (if output' c = None \<or> output' c = Some [] then c\<lparr>output' := Some (join_comma (iso3List c) @ ''.svg'')\<rparr>
         else c)
      else c)"

subsection \<open>The decoded dataset\<close>

text \<open>
  What \<^verbatim>\<open>JSON.parse\<close> returns. An object is the list of its own properties in the
  order \<^verbatim>\<open>Object.keys\<close> enumerates them.
\<close>
datatype json =
    JNull
  | JBool bool
  | JNum real
  | JStr string
  | JArr "json list"
  | JObj "(string \<times> json) list"

text \<open>
  A feature as \<^verbatim>\<open>topojson.feature\<close> yields it: the two properties the scripts read
  (\<open>VUndefined\<close> when the property is missing; property values are JSON primitives) and
  the geometry, of a type the model does not fix.
\<close>
record 'g feature =
  iso3 :: jsval
  secondary_territory :: jsval
  geometry :: 'g

fun truthy :: "json \<Rightarrow> bool" where
  "truthy JNull = False"
| "truthy (JBool b) = b"
| "truthy (JNum r) = (r \<noteq> 0)"
| "truthy (JStr s) = (s \<noteq> [])"
| "truthy (JArr xs) = True"
| "truthy (JObj kvs) = True"

definition digitChar :: "nat \<Rightarrow> char" where
  "digitChar d = char_of (48 + d)"

text \<open>The decimal text of an array index.\<close>
fun decimal :: "nat \<Rightarrow> string" where
  "decimal n = (if n < 10 then [digitChar n] else decimal (n div 10) @ [digitChar (n mod 10)])"

declare decimal.simps [simp del]

text \<open>
  \<^verbatim>\<open>Object.keys(v)\<close>: the own enumerable property names. A string and an array have
  their indices, a number and a boolean have none.
\<close>
fun Object_keys :: "json \<Rightarrow> string list" where
  "Object_keys (JObj kvs) = map fst kvs"
| "Object_keys (JArr xs) = map decimal [0..<length xs]"
| "Object_keys (JStr s) = map decimal [0..<length s]"
| "Object_keys _ = []"

text \<open>
  \<^verbatim>\<open>v[k]\<close> for a value \<open>v\<close> that is not null, for the keys the scripts read
  (\<^verbatim>\<open>objects\<close>, \<^verbatim>\<open>countries\<close>, and a name \<^verbatim>\<open>Object.keys\<close> returned).
  \<open>None\<close> is \<^verbatim>\<open>undefined\<close>.
\<close>
fun getProp :: "json \<Rightarrow> string \<Rightarrow> json option" where
  "getProp (JObj kvs) k = map_of kvs k"
| "getProp (JArr xs) k =
     (case find (\<lambda>i. decimal i = k) [0..<length xs] of None \<Rightarrow> None | Some i \<Rightarrow> Some (xs ! i))"
| "getProp (JStr s) k =
     (case find (\<lambda>i. decimal i = k) [0..<length s] of None \<Rightarrow> None | Some i \<Rightarrow> Some (JStr [s ! i]))"
| "getProp _ k = None"

text \<open>\<^verbatim>\<open>worldData.objects || {}\<close>\<close>
definition objectsOrEmpty :: "json option \<Rightarrow> json" where
  "objectsOrEmpty objects =
     (case objects of None \<Rightarrow> JObj [] | Some v \<Rightarrow> if truthy v then v else JObj [])"

text \<open>
  Line 122: \<^verbatim>\<open>worldData.objects.countries ? 'countries' : topoKeys[0]\<close>. It runs only
  after \<open>topoKeys\<close> was found non-empty, so \<open>objects\<close> is a truthy value;
  \<^verbatim>\<open>topoKeys[0]\<close> of an empty array is \<^verbatim>\<open>undefined\<close> (\<open>None\<close>).
\<close>
definition topoKey :: "json \<Rightarrow> string list \<Rightarrow> string option" where
  "topoKey objects topoKeys =
     (case getProp objects ''countries'' of
        Some v \<Rightarrow> if truthy v then Some ''countries'' else nextArg topoKeys
      | None \<Rightarrow> nextArg topoKeys)"

text \<open>Line 125: \<^verbatim>\<open>worldData.objects[topoKey]\<close>\<close>
definition topoObject :: "json \<Rightarrow> string list \<Rightarrow> json option" where
  "topoObject objects topoKeys =
     (case topoKey objects topoKeys of None \<Rightarrow> None | Some k \<Rightarrow> getProp objects k)"

subsection \<open>Maps and the DOM\<close>

record projection =
  scale :: real
  translate :: "real \<times> real"
  clipAngle :: real
  rotate' :: "real \<times> real"

text \<open>What the scripts hand to the path generator.\<close>
datatype 'g geo = Sphere | FeatureObject "'g feature" | Graticule "real \<times> real"

text \<open>An attribute value as it is handed to \<^verbatim>\<open>setAttribute\<close>.\<close>
datatype attrval = AStr string | ANum real

datatype element = Element (tag: string) (attrs: "(string \<times> attrval) list") (children: "element list")

subsection \<open>The libraries\<close>

text \<open>
  \<open>None\<close> from a file-system call, from \<^verbatim>\<open>JSON.parse\<close> or from
  \<^verbatim>\<open>topojson.feature\<close> says that the call threw; for \<^verbatim>\<open>topojson.feature\<close> it
  also covers a result without a \<^verbatim>\<open>features\<close> array, on which line 126 throws.
  \<open>geoPath\<close> returns \<open>None\<close> for \<^verbatim>\<open>null\<close>: nothing to draw.
\<close>
record ('fs, 'g) env =
  existsSync :: "'fs \<Rightarrow> string \<Rightarrow> bool"
  readFileSync :: "'fs \<Rightarrow> string \<Rightarrow> string option"
  mkdirSync :: "'fs \<Rightarrow> string \<Rightarrow> 'fs option"
  writeFileSync :: "'fs \<Rightarrow> string \<Rightarrow> string \<Rightarrow> 'fs option"
  JSON_parse :: "string \<Rightarrow> json option"
  topojson_feature :: "json \<Rightarrow> json option \<Rightarrow> 'g feature list option"
  geoBounds :: "'g feature list \<Rightarrow> (real \<times> real) \<times> (real \<times> real)"
  geoCentroid :: "'g feature \<Rightarrow> real \<times> real"
  geoPath :: "projection \<Rightarrow> 'g geo \<Rightarrow> string option"
  outerHTML :: "element \<Rightarrow> string"
  path_join :: "string \<Rightarrow> string \<Rightarrow> string"
  Number_toString :: "real \<Rightarrow> string"

subsection \<open>Loading the dataset (lines 108--126 of part\_000, 102--126 of create\_globe.js)\<close>

definition inputTopoPath :: string where
  "inputTopoPath = ''wrl_polbnd_int_25m_a_unhcr.json''"

text \<open>
  The two scripts load alike. An exception of \<^verbatim>\<open>readFileSync\<close>, \<^verbatim>\<open>JSON.parse\<close> or
  \<^verbatim>\<open>topojson.feature\<close>, and the \<^verbatim>\<open>TypeError\<close> of \<^verbatim>\<open>worldData.objects\<close> on
  \<^verbatim>\<open>null\<close>, are caught nowhere: Node prints the error on stderr and exits with
  status 1 (\<open>Uncaught\<close>).
\<close>
definition load :: "('fs, 'g) env \<Rightarrow> 'fs world \<Rightarrow> (halt + 'g feature list) \<times> 'fs world" where
  "load env w =
     (if \<not> existsSync env (fs w) inputTopoPath then
        (Inl (Exit 1), console_error (TopoJSONNotFound inputTopoPath) w)
      else
        (case readFileSync env (fs w) inputTopoPath of
           None \<Rightarrow> (Inl (Uncaught FsError), w)
         | Some topoRaw \<Rightarrow>
            (case JSON_parse env topoRaw of
               None \<Rightarrow> (Inl (Uncaught SyntaxError), w)
             | Some worldData \<Rightarrow>
                (if worldData = JNull then (Inl (Uncaught TypeError), w)
                 else
                   (let objects = objectsOrEmpty (getProp worldData ''objects'');
                        topoKeys = Object_keys objects
                    in if length topoKeys = 0 then
                         (Inl (Exit 1), console_error NoTopologyObjects w)
                       else
                         (case topojson_feature env worldData (topoObject objects topoKeys) of
                            None \<Rightarrow> (Inl (Uncaught TypeError), w)
                          | Some countries \<Rightarrow> (Inr countries, w)))))))"

text \<open>Line 126: \<^verbatim>\<open>countries.filter(d => d.properties.secondary_territory === 0)\<close>\<close>
definition mainCountries :: "'g feature list \<Rightarrow> 'g feature list" where
  "mainCountries countries = filter (\<lambda>d. secondary_territory d = VNum 0) countries"

subsection \<open>d3-selection on a fresh document\<close>

text \<open>\<^verbatim>\<open>el.setAttribute(name, v)\<close>: replaces the value in place, or appends the attribute.\<close>
definition setAttribute :: "string \<Rightarrow> attrval \<Rightarrow> element \<Rightarrow> element" where
  "setAttribute name v el =
     (if name \<in> fst ` set (attrs el)
      then Element (tag el) (map (\<lambda>(n, x). if n = name then (n, v) else (n, x)) (attrs el)) (children el)
      else Element (tag el) (attrs el @ [(name, v)]) (children el))"

definition removeAttribute :: "string \<Rightarrow> element \<Rightarrow> element" where
  "removeAttribute name el = Element (tag el) (filter (\<lambda>(n, x). n \<noteq> name) (attrs el)) (children el)"

text \<open>\<^verbatim>\<open>selection.attr(name, value)\<close>: a \<^verbatim>\<open>null\<close> value removes the attribute.\<close>
definition attr :: "string \<Rightarrow> attrval option \<Rightarrow> element \<Rightarrow> element" where
  "attr name v el = (case v of None \<Rightarrow> removeAttribute name el | Some x \<Rightarrow> setAttribute name x el)"

text \<open>A chain of \<^verbatim>\<open>.attr\<close> calls on a new element, first call first.\<close>
definition created :: "string \<Rightarrow> (string \<times> attrval option) list \<Rightarrow> element" where
  "created t avs = foldl (\<lambda>el (n, v). attr n v el) (Element t [] []) avs"

text \<open>\<^verbatim>\<open>el.getAttribute(name)\<close>\<close>
definition getAttribute :: "element \<Rightarrow> string \<Rightarrow> attrval option" where
  "getAttribute el name = map_of (attrs el) name"

text \<open>\<^verbatim>\<open>svg.selectAll('path.country')\<close>, over the children of the \<^verbatim>\<open>svg\<close> node.\<close>
definition selectAll_path_country :: "element \<Rightarrow> element list" where
  "selectAll_path_country el =
     filter (\<lambda>e. tag e = ''path'' \<and> getAttribute e ''class'' = Some (AStr ''country'')) (children el)"

subsection \<open>generateSvg of part\_000 (lines 132--192)\<close>

text \<open>Lines 136--139; \<open>[0, 0]\<close> is the rotation of a new projection.\<close>
definition newProjection :: "int \<Rightarrow> int \<Rightarrow> projection" where
  "newProjection w h =
     \<lparr>scale = real_of_int (min w h) / 2 - 2,
      translate = (real_of_int w / 2, real_of_int h / 2),
      clipAngle = 90,
      rotate' = (0, 0)\<rparr>"

text \<open>
  Line 143. \<^verbatim>\<open>highlightIso3.includes(x)\<close> compares by SameValueZero, which on
  primitives other than \<^verbatim>\<open>NaN\<close> is equality.
\<close>
definition selected :: "'g feature list \<Rightarrow> jsval list \<Rightarrow> 'g feature list" where
  "selected countries highlightIso3 = filter (\<lambda>d. iso3 d \<in> set highlightIso3) countries"

text \<open>Lines 144--150: \<^verbatim>\<open>projection.rotate\<close> is called only when something is selected.\<close>
definition centre :: "('fs, 'g) env \<Rightarrow> 'g feature list \<Rightarrow> jsval list \<Rightarrow> projection \<Rightarrow> projection" where
  "centre env countries highlightIso3 p =
     (let sel = selected countries highlightIso3
      in if length sel \<noteq> 0 then
           (case geoBounds env sel of
              ((minLon, minLat), (maxLon, maxLat)) \<Rightarrow>
                (let centerLon = (minLon + maxLon) / 2;
                     centerLat = (minLat + maxLat) / 2
                 in p\<lparr>rotate' := (- centerLon, - centerLat)\<rparr>))
         else p)"

definition highlightColor :: string where "highlightColor = ''#EF4A60''"
definition neutralColor :: string where "neutralColor = ''#D1CCCB''"

definition dAttr :: "('fs, 'g) env \<Rightarrow> projection \<Rightarrow> 'g geo \<Rightarrow> attrval option" where
  "dAttr env p g = map_option AStr (geoPath env p g)"

text \<open>Lines 160--163\<close>
definition oceanPath :: "('fs, 'g) env \<Rightarrow> projection \<Rightarrow> element" where
  "oceanPath env p = created ''path'' [(''d'', dAttr env p Sphere), (''fill'', Some (AStr ''white''))]"

text \<open>Lines 168--180, for one datum \<open>d\<close>\<close>
definition countryPath :: "('fs, 'g) env \<Rightarrow> projection \<Rightarrow> jsval list \<Rightarrow> 'g feature \<Rightarrow> element" where
  "countryPath env p highlightIso3 d =
     created ''path''
       [(''class'', Some (AStr ''country'')),
        (''d'', dAttr env p (FeatureObject d)),
        (''fill'', Some (AStr (if iso3 d \<in> set highlightIso3 then highlightColor else neutralColor))),
        (''stroke'', Some (AStr (if iso3 d \<in> set highlightIso3 then highlightColor else neutralColor))),
        (''stroke-width'', Some (ANum 0.5)),
        (''opacity'', Some (ANum 1))]"

text \<open>Lines 183--189\<close>
definition graticulePath :: "('fs, 'g) env \<Rightarrow> projection \<Rightarrow> element" where
  "graticulePath env p =
     created ''path''
       [(''d'', dAttr env p (Graticule (30, 30))),
        (''fill'', Some (AStr ''none'')),
        (''stroke'', Some (AStr ''white'')),
        (''stroke-width'', Some (ANum 1))]"

text \<open>Lines 153--157\<close>
definition svgRoot :: "int \<Rightarrow> int \<Rightarrow> element" where
  "svgRoot w h =
     created ''svg''
       [(''xmlns'', Some (AStr ''http://www.w3.org/2000/svg'')),
        (''width'', Some (ANum (real_of_int w))),
        (''height'', Some (ANum (real_of_int h)))]"

definition appendChildren :: "element \<Rightarrow> element list \<Rightarrow> element" where
  "appendChildren el cs = Element (tag el) (attrs el) (children el @ cs)"

text \<open>
  The \<^verbatim>\<open>svg\<close> node that \<^verbatim>\<open>generateSvg\<close> builds. The document is new, so
  \<^verbatim>\<open>selectAll('path.country')\<close> is empty and the join appends one \<^verbatim>\<open>path\<close> per
  datum, in the order of \<open>countries\<close>. The path generator holds the projection object
  itself, so every path is drawn with the projection as \<^verbatim>\<open>rotate\<close> left it.
  \<open>countries\<close>, \<open>width\<close> and \<open>height\<close> are the script's variables of these names.
\<close>
definition svgNode :: "('fs, 'g) env \<Rightarrow> 'g feature list \<Rightarrow> cli \<Rightarrow> jsval list \<Rightarrow> element" where
  "svgNode env countries c highlightIso3 =
     (let p = centre env countries highlightIso3 (newProjection (width c) (height c))
      in appendChildren (svgRoot (width c) (height c))
           ([oceanPath env p] @ map (countryPath env p highlightIso3) countries @ [graticulePath env p]))"

definition generateSvg :: "('fs, 'g) env \<Rightarrow> 'g feature list \<Rightarrow> cli \<Rightarrow> jsval list \<Rightarrow> string" where
  "generateSvg env countries c highlightIso3 = outerHTML env (svgNode env countries c highlightIso3)"

subsection \<open>generateSvg of create\_globe.js (lines 131--184)\<close>

text \<open>Lines 141--147: \<^verbatim>\<open>countries.find(d => d.properties.iso3 === iso3)\<close>, and a warning when nothing is found.\<close>
definition globe_centre ::
  "('fs, 'g) env \<Rightarrow> 'g feature list \<Rightarrow> jsval \<Rightarrow> projection \<Rightarrow> 'fs world \<Rightarrow> projection \<times> 'fs world" where
  "globe_centre env countries code p w =
     (case find (\<lambda>d. iso3 d = code) countries of
        Some target \<Rightarrow>
          (case geoCentroid env target of (lon, lat) \<Rightarrow> (p\<lparr>rotate' := (- lon, - lat)\<rparr>, w))
      | None \<Rightarrow> (p, console_warn (CodeNotFound code) w))"

text \<open>Lines 160--173, for one datum \<open>d\<close>: the test is \<^verbatim>\<open>d.properties.iso3 === iso3\<close>.\<close>
definition globe_countryPath :: "('fs, 'g) env \<Rightarrow> projection \<Rightarrow> jsval \<Rightarrow> 'g feature \<Rightarrow> element" where
  "globe_countryPath env p code d =
     created ''path''
       [(''class'', Some (AStr ''country'')),
        (''d'', dAttr env p (FeatureObject d)),
        (''fill'', Some (AStr (if iso3 d = code then highlightColor else neutralColor))),
        (''stroke'', Some (AStr (if iso3 d = code then highlightColor else neutralColor))),
        (''stroke-width'', Some (ANum 0.5)),
        (''opacity'', Some (ANum 1))]"

definition globe_svgNode ::
  "('fs, 'g) env \<Rightarrow> 'g feature list \<Rightarrow> cli \<Rightarrow> jsval \<Rightarrow> 'fs world \<Rightarrow> element \<times> 'fs world" where
  "globe_svgNode env countries c code w =
     (case globe_centre env countries code (newProjection (width c) (height c)) w of
        (p, w') \<Rightarrow>
          (appendChildren (svgRoot (width c) (height c))
             ([oceanPath env p] @ map (globe_countryPath env p code) countries @ [graticulePath env p]),
           w'))"

definition globe_generateSvg ::
  "('fs, 'g) env \<Rightarrow> 'g feature list \<Rightarrow> cli \<Rightarrow> jsval \<Rightarrow> 'fs world \<Rightarrow> string \<times> 'fs world" where
  "globe_generateSvg env countries c code w =
     (case globe_svgNode env countries c code w of (el, w') \<Rightarrow> (outerHTML env el, w'))"

subsection \<open>main of part\_000 (lines 195--211)\<close>

text \<open>The text a template literal gives for a value.\<close>
definition toText :: "('fs, 'g) env \<Rightarrow> jsval \<Rightarrow> string" where
  "toText env v =
     (case v of
        VUndefined \<Rightarrow> ''undefined''
      | VNull \<Rightarrow> ''null''
      | VBool b \<Rightarrow> (if b then ''true'' else ''false'')
      | VNum r \<Rightarrow> Number_toString env r
      | VStr s \<Rightarrow> s)"

text \<open>
  \<^verbatim>\<open>fs.writeFileSync(name, text)\<close>, then the report. A failed write is caught nowhere:
  the run ends there.
\<close>
definition writeAndReport :: "('fs, 'g) env \<Rightarrow> string \<Rightarrow> string \<Rightarrow> 'fs world \<Rightarrow> (halt + unit) \<times> 'fs world" where
  "writeAndReport env name text w =
     (case writeFileSync env (fs w) name text of
        None \<Rightarrow> (Inl (Uncaught FsError), w)
      | Some fs' \<Rightarrow>
          (Inr (), console_log (Written name) (w\<lparr>fs := fs', calls := calls w @ [WriteFile name text]\<rparr>)))"

text \<open>Lines 200--205: \<^verbatim>\<open>for (const feat of mainCountries)\<close>\<close>
fun batchLoop ::
  "('fs, 'g) env \<Rightarrow> 'g feature list \<Rightarrow> cli \<Rightarrow> string \<Rightarrow> 'g feature list \<Rightarrow> 'fs world
   \<Rightarrow> (halt + unit) \<times> 'fs world" where
  "batchLoop env countries c dir [] w = (Inr (), w)"
| "batchLoop env countries c dir (feat # rest) w =
     (let iso = iso3 feat;
          filename = path_join env dir (toText env iso @ ''.svg'')
      in case writeAndReport env filename (generateSvg env countries c [iso]) w of
           (Inl h, w') \<Rightarrow> (Inl h, w')
         | (Inr u, w') \<Rightarrow> batchLoop env countries c dir rest w')"

text \<open>\<^verbatim>\<open>outdir || '.'\<close>\<close>
definition batchDir :: "cli \<Rightarrow> string" where
  "batchDir c = (case outdir c of None \<Rightarrow> ''.'' | Some d \<Rightarrow> if d = [] then ''.'' else d)"

text \<open>Line 199: \<^verbatim>\<open>if (!fs.existsSync(dir)) fs.mkdirSync(dir, { recursive: true })\<close>\<close>
definition ensureDir :: "('fs, 'g) env \<Rightarrow> string \<Rightarrow> 'fs world \<Rightarrow> (halt + unit) \<times> 'fs world" where
  "ensureDir env dir w =
     (if \<not> existsSync env (fs w) dir then
        (case mkdirSync env (fs w) dir of
           None \<Rightarrow> (Inl (Uncaught FsError), w)
         | Some fs' \<Rightarrow> (Inr (), w\<lparr>fs := fs', calls := calls w @ [MkdirRecursive dir]\<rparr>))
      else (Inr (), w))"

text \<open>
  \<open>main\<close>. In single mode \<^verbatim>\<open>output\<close> was set by the default rule before; writing to
  an undefined path throws.
\<close>
definition main :: "('fs, 'g) env \<Rightarrow> 'g feature list \<Rightarrow> cli \<Rightarrow> 'fs world \<Rightarrow> (halt + unit) \<times> 'fs world" where
  "main env countries c w =
     (if all c then
        (case ensureDir env (batchDir c) w of
           (Inl h, w') \<Rightarrow> (Inl h, w')
         | (Inr u, w') \<Rightarrow> batchLoop env countries c (batchDir c) (mainCountries countries) w')
      else
        (case output' c of
           None \<Rightarrow> (Inl (Uncaught TypeError), w)
         | Some out \<Rightarrow> writeAndReport env out (generateSvg env countries c (map VStr (iso3List c))) w))"

text \<open>The whole script, top to bottom.\<close>
definition program :: "('fs, 'g) env \<Rightarrow> string list \<Rightarrow> 'fs world \<Rightarrow> (halt + unit) \<times> 'fs world" where
  "program env argv w =
     (case parseArgs argv cli0 w of
        (Inl h, w1) \<Rightarrow> (Inl h, w1)
      | (Inr c, w1) \<Rightarrow>
          (let c' = defaultOutput c
           in case load env w1 of
                (Inl h, w2) \<Rightarrow> (Inl h, w2)
              | (Inr countries, w2) \<Rightarrow> main env countries c' w2))"

subsection \<open>A small environment to run the definitions in\<close>

text \<open>
  Stand-ins for the libraries, enough to evaluate the scripts on small inputs: a file
  system that is a list of paths, geometries that are lists of points, a topology
  decoder for collections of points, the bounding box that \<^verbatim>\<open>d3.geoBounds\<close> gives
  for points, and a centroid computed in the plane.
\<close>

datatype entry = File string | Dir

type_synonym sample_fs = "(string \<times> entry) list"
type_synonym points = "(real \<times> real) list"

definition sample_readFileSync :: "sample_fs \<Rightarrow> string \<Rightarrow> string option" where
  "sample_readFileSync f p = (case map_of f p of Some (File t) \<Rightarrow> Some t | _ \<Rightarrow> None)"

definition sample_writeFileSync :: "sample_fs \<Rightarrow> string \<Rightarrow> string \<Rightarrow> sample_fs option" where
  "sample_writeFileSync f p t = (if map_of f p = Some Dir then None else Some ((p, File t) # f))"

definition sample_point :: "json \<Rightarrow> points" where
  "sample_point g =
     (case getProp g ''coordinates'' of
        Some (JArr [JNum x, JNum y]) \<Rightarrow> [(x, y)]
      | _ \<Rightarrow> [])"

definition sample_property :: "json \<Rightarrow> string \<Rightarrow> jsval" where
  "sample_property g k =
     (case getProp g ''properties'' of
        Some ps \<Rightarrow>
          (case getProp ps k of
             Some (JStr s) \<Rightarrow> VStr s
           | Some (JNum r) \<Rightarrow> VNum r
           | Some (JBool b) \<Rightarrow> VBool b
           | Some JNull \<Rightarrow> VNull
           | _ \<Rightarrow> VUndefined)
      | None \<Rightarrow> VUndefined)"

text \<open>
  \<^verbatim>\<open>topojson.feature(topology, o).features\<close>: a feature array for a
  \<^verbatim>\<open>GeometryCollection\<close> with an array of \<^verbatim>\<open>geometries\<close>. Without the array
  the call throws; any other object decodes to a single feature, which has no
  \<^verbatim>\<open>features\<close>.
\<close>
definition sample_topojson_feature :: "json \<Rightarrow> json option \<Rightarrow> points feature list option" where
  "sample_topojson_feature topology o' =
     (case o' of
        None \<Rightarrow> None
      | Some ob \<Rightarrow>
          (if getProp ob ''type'' = Some (JStr ''GeometryCollection'') then
             (case getProp ob ''geometries'' of
                Some (JArr gs) \<Rightarrow>
                  Some (map (\<lambda>g. \<lparr>iso3 = sample_property g ''iso3'',
                                  secondary_territory = sample_property g ''secondary_territory'',
                                  geometry = sample_point g\<rparr>) gs)
              | _ \<Rightarrow> None)
           else None))"

text \<open>The angle from one longitude eastward to another, in degrees.\<close>
definition eastward :: "real \<Rightarrow> real \<Rightarrow> real" where
  "eastward lambda0 lambda1 =
     (if lambda1 - lambda0 < 0 then lambda1 - lambda0 + 360 else lambda1 - lambda0)"

text \<open>
  The longitudes \<^verbatim>\<open>d3.geoBounds\<close> returns for a set of points: it sorts the
  longitudes, looks for the widest gap between neighbours, the gap from the last around
  to the first included, and returns the complement of that gap as \<open>(west, east)\<close>. So
  \<open>west\<close> is greater than \<open>east\<close> when the points lie on both sides of the
  antimeridian.
\<close>
definition sample_lonRange :: "real list \<Rightarrow> real \<times> real" where
  "sample_lonRange lons =
     (case remdups_adj (sort lons) of
        [] \<Rightarrow> (0, 0)
      | l # ls \<Rightarrow>
          snd (fold (\<lambda>(a, b) (deltaMax, r).
                       if eastward a b > deltaMax then (eastward a b, (b, a)) else (deltaMax, r))
                    (zip (l # ls) ls)
                    (eastward (last (l # ls)) l, (l, last (l # ls)))))"

definition sample_geoBounds :: "points feature list \<Rightarrow> (real \<times> real) \<times> (real \<times> real)" where
  "sample_geoBounds features =
     (case concat (map geometry features) of
        [] \<Rightarrow> ((0, 0), (0, 0))
      | q # qs \<Rightarrow>
          ((fst (sample_lonRange (map fst (q # qs))), fold min (map snd qs) (snd q)),
           (snd (sample_lonRange (map fst (q # qs))), fold max (map snd qs) (snd q))))"

definition sample_geoCentroid :: "points feature \<Rightarrow> real \<times> real" where
  "sample_geoCentroid f =
     (case geometry f of
        [] \<Rightarrow> (0, 0)
      | q # qs \<Rightarrow>
          (sum_list (map fst (q # qs)) / real (length (q # qs)),
           sum_list (map snd (q # qs)) / real (length (q # qs))))"

definition sample_geoPath :: "projection \<Rightarrow> points geo \<Rightarrow> string option" where
  "sample_geoPath p g =
     (case g of
        Sphere \<Rightarrow> Some ''M0,0Z''
      | FeatureObject f \<Rightarrow> (if geometry f = [] then None else Some ''M1,1Z'')
      | Graticule st \<Rightarrow> Some ''M2,2'')"

definition sample_outerHTML :: "element \<Rightarrow> string" where
  "sample_outerHTML el =
     concat (map (\<lambda>e. case getAttribute e ''fill'' of Some (AStr s) \<Rightarrow> s @ '';'' | _ \<Rightarrow> '';'')
                 (children el))"

definition dq :: string where
  "dq = [CHR 0x22]"

definition sample_geometry :: "string \<Rightarrow> real \<Rightarrow> real \<times> real \<Rightarrow> json" where
  "sample_geometry code st xy =
     JObj [(''type'', JStr ''Point''),
           (''coordinates'', JArr [JNum (fst xy), JNum (snd xy)]),
           (''properties'', JObj [(''iso3'', JStr code), (''secondary_territory'', JNum st)])]"

text \<open>A dataset of three points: Ethiopia, France, and French Guiana as a secondary territory of France.\<close>
definition sample_worldData :: json where
  "sample_worldData =
     JObj [(''type'', JStr ''Topology''),
           (''objects'',
              JObj [(''countries'',
                 JObj [(''type'', JStr ''GeometryCollection''),
                       (''geometries'',
                          JArr [sample_geometry ''ETH'' 0 (40, 9),
                                sample_geometry ''FRA'' 0 (2, 46),
                                sample_geometry ''FRA'' 1 (-53, 4)])])]),
           (''arcs'', JArr [])]"

text \<open>
  A dataset whose collection has no \<^verbatim>\<open>geometries\<close>: \<^verbatim>\<open>topojson.feature\<close> throws a
  \<^verbatim>\<open>TypeError\<close> on it.
\<close>
definition sample_brokenData :: json where
  "sample_brokenData =
     JObj [(''type'', JStr ''Topology''),
           (''objects'', JObj [(''countries'', JObj [(''type'', JStr ''GeometryCollection'')])]),
           (''arcs'', JArr [])]"

text \<open>A dataset without an object named \<^verbatim>\<open>countries\<close>: its first named object is \<^verbatim>\<open>land\<close>.\<close>
definition sample_landData :: json where
  "sample_landData =
     JObj [(''type'', JStr ''Topology''),
           (''objects'',
              JObj [(''land'',
                       JObj [(''type'', JStr ''GeometryCollection''),
                             (''geometries'', JArr [sample_geometry ''ETH'' 0 (40, 9)])]),
                    (''borders'',
                       JObj [(''type'', JStr ''GeometryCollection''), (''geometries'', JArr [])])]),
           (''arcs'', JArr [])]"

text \<open>\<^verbatim>\<open>JSON.stringify\<close>, for values whose numbers are integers and whose strings need no escape.\<close>
fun JSON_text :: "json \<Rightarrow> string" where
  "JSON_text JNull = ''null''"
| "JSON_text (JBool b) = (if b then ''true'' else ''false'')"
| "JSON_text (JNum r) = (if r < 0 then ''-'' else []) @ decimal (nat \<lfloor>\<bar>r\<bar>\<rfloor>)"
| "JSON_text (JStr s) = dq @ s @ dq"
| "JSON_text (JArr xs) = ''['' @ join_comma (map JSON_text xs) @ '']''"
| "JSON_text (JObj kvs) =
     ''{'' @ join_comma (map (\<lambda>(k, v). dq @ k @ dq @ '':'' @ JSON_text v) kvs) @ ''}''"

text \<open>
  \<^verbatim>\<open>JSON.parse\<close> on the texts of the examples: the texts of the three datasets above,
  of a dataset without named objects and of \<^verbatim>\<open>null\<close>. Every other text is rejected
  here, as the empty text is by \<^verbatim>\<open>JSON.parse\<close>.
\<close>
definition sample_JSON_parse :: "string \<Rightarrow> json option" where
  "sample_JSON_parse t =
     find (\<lambda>j. JSON_text j = t)
       [sample_worldData, sample_brokenData, sample_landData, JObj [(''objects'', JObj [])], JNull]"

definition sample_env :: "(sample_fs, points) env" where
  "sample_env =
     \<lparr>existsSync = (\<lambda>f p. map_of f p \<noteq> None),
      readFileSync = sample_readFileSync,
      mkdirSync = (\<lambda>f p. Some ((p, Dir) # f)),
      writeFileSync = sample_writeFileSync,
      JSON_parse = sample_JSON_parse,
      topojson_feature = sample_topojson_feature,
      geoBounds = sample_geoBounds,
      geoCentroid = sample_geoCentroid,
      geoPath = sample_geoPath,
      outerHTML = sample_outerHTML,
      path_join = (\<lambda>d n. if d = ''.'' then n else d @ ''/'' @ n),
      Number_toString = (\<lambda>r. decimal (nat \<lfloor>r\<rfloor>))\<rparr>"

definition sample_countries :: "points feature list" where
  "sample_countries =
     [\<lparr>iso3 = VStr ''ETH'', secondary_territory = VNum 0, geometry = [(40, 9)]\<rparr>,
      \<lparr>iso3 = VStr ''FRA'', secondary_territory = VNum 0, geometry = [(2, 46)]\<rparr>,
      \<lparr>iso3 = VStr ''FRA'', secondary_territory = VNum 1, geometry = [(-53, 4)]\<rparr>]"

text \<open>Fiji, with one point on each side of the antimeridian.\<close>
definition sample_pacific :: "points feature list" where
  "sample_pacific =
     [\<lparr>iso3 = VStr ''FJI'', secondary_territory = VNum 0, geometry = [(178, -18), (-178, -16)]\<rparr>]"

text \<open>A world whose working directory holds one file, the dataset, with the given text.\<close>
definition sample_world :: "string \<Rightarrow> sample_fs world" where
  "sample_world t = \<lparr>fs = [(''.'', Dir), (inputTopoPath, File t)], console = [], calls = []\<rparr>"

subsection \<open>Notions the properties are stated with\<close>

text \<open>The three attributes of a path that carry its colour and its outline.\<close>
definition paint :: "element \<Rightarrow> attrval option \<times> attrval option \<times> attrval option" where
  "paint e = (getAttribute e ''fill'', getAttribute e ''stroke'', getAttribute e ''stroke-width'')"

text \<open>
  The midpoint of a geographic bounding box \<open>((west, south), (east, north))\<close>, with
  longitudes between -180 and 180. The box runs eastward from \<open>west\<close> to \<open>east\<close>; when
  it crosses the antimeridian, \<open>west\<close> is greater than \<open>east\<close> and the midpoint lies
  half the eastward angle after \<open>west\<close>.
\<close>
definition boxMidpoint :: "(real \<times> real) \<times> (real \<times> real) \<Rightarrow> real \<times> real" where
  "boxMidpoint b =
     (case b of ((west, south), (east, north)) \<Rightarrow>
        ((if west \<le> east then (west + east) / 2
          else if (west + east + 360) / 2 > 180 then (west + east + 360) / 2 - 360
          else (west + east + 360) / 2),
         (south + north) / 2))"

text \<open>A bounding box that crosses the antimeridian.\<close>
definition crossesAntimeridian :: "(real \<times> real) \<times> (real \<times> real) \<Rightarrow> bool" where
  "crossesAntimeridian b = (case b of ((west, south), (east, north)) \<Rightarrow> east < west)"



text \<open>The value decoded from the dataset file, when it can be read and decoded.\<close>
definition decoded :: "('fs, 'g) env \<Rightarrow> 'fs world \<Rightarrow> json option" where
  "decoded env w =
     (case readFileSync env (fs w) inputTopoPath of
        None \<Rightarrow> None
      | Some topoRaw \<Rightarrow> JSON_parse env topoRaw)"

text \<open>A decoded dataset without named objects.\<close>
definition noNamedObjects :: "json \<Rightarrow> bool" where
  "noNamedObjects worldData = (Object_keys (objectsOrEmpty (getProp worldData ''objects'')) = [])"


section \<open>Properties\<close>

subsection \<open>The attributes of the elements built\<close>

lemmas dom_defs = created_def attr_def setAttribute_def removeAttribute_def dAttr_def getAttribute_def

lemma countryPath_attrs:
  "tag (countryPath env p h d) = ''path''"
  "getAttribute (countryPath env p h d) ''class'' = Some (AStr ''country'')"
  "getAttribute (countryPath env p h d) ''fill'' =
     Some (AStr (if iso3 d \<in> set h then highlightColor else neutralColor))"
  "getAttribute (countryPath env p h d) ''stroke'' =
     Some (AStr (if iso3 d \<in> set h then highlightColor else neutralColor))"
  "getAttribute (countryPath env p h d) ''stroke-width'' = Some (ANum 0.5)"
  by (cases "geoPath env p (FeatureObject d)"; simp add: countryPath_def dom_defs)+

lemma globe_countryPath_attrs:
  "tag (globe_countryPath env p code d) = ''path''"
  "getAttribute (globe_countryPath env p code d) ''class'' = Some (AStr ''country'')"
  "getAttribute (globe_countryPath env p code d) ''fill'' =
     Some (AStr (if iso3 d = code then highlightColor else neutralColor))"
  "getAttribute (globe_countryPath env p code d) ''stroke'' =
     Some (AStr (if iso3 d = code then highlightColor else neutralColor))"
  "getAttribute (globe_countryPath env p code d) ''stroke-width'' = Some (ANum 0.5)"
  by (cases "geoPath env p (FeatureObject d)"; simp add: globe_countryPath_def dom_defs)+

lemma oceanPath_class: "getAttribute (oceanPath env p) ''class'' = None"
  by (cases "geoPath env p Sphere"; simp add: oceanPath_def dom_defs)

lemma graticulePath_class: "getAttribute (graticulePath env p) ''class'' = None"
  by (cases "geoPath env p (Graticule (30, 30))"; simp add: graticulePath_def dom_defs)

lemma children_svgRoot: "children (svgRoot w h) = []"
  by (simp add: svgRoot_def dom_defs)

lemma selectAll_svg:
  "selectAll_path_country
     (appendChildren (svgRoot w h) (oceanPath env p # map f ds @ [graticulePath env p]))
   = filter (\<lambda>e. tag e = ''path'' \<and> getAttribute e ''class'' = Some (AStr ''country'')) (map f ds)"
  by (simp add: selectAll_path_country_def appendChildren_def children_svgRoot
        oceanPath_class graticulePath_class)

lemma selectAll_svgNode:
  "selectAll_path_country (svgNode env countries c h)
     = map (countryPath env (centre env countries h (newProjection (width c) (height c))) h) countries"
  by (simp add: svgNode_def Let_def selectAll_svg countryPath_attrs)

lemma selectAll_globe_svgNode:
  "selectAll_path_country (fst (globe_svgNode env countries c code w))
     = map (globe_countryPath env
              (fst (globe_centre env countries code (newProjection (width c) (height c)) w)) code)
           countries"
  unfolding globe_svgNode_def
  by (cases "globe_centre env countries code (newProjection (width c) (height c)) w")
     (simp add: selectAll_svg globe_countryPath_attrs)

text \<open>
  C1. In the image either script builds there is one country path per loaded feature, in
  the order of the features. Its fill and its stroke are both the highlight colour when
  the feature's code is among the highlighted codes (part\_000), or is the highlighted
  code (create\_globe.js), and both the neutral gray otherwise; its stroke width is 0.5
  in either case. The two colours differ, so the colour tells membership.
\<close>
theorem country_paint_exact:
  "map paint (selectAll_path_country (svgNode env countries c highlightIso3))
     = map (\<lambda>d. if iso3 d \<in> set highlightIso3
                 then (Some (AStr highlightColor), Some (AStr highlightColor), Some (ANum 0.5))
                 else (Some (AStr neutralColor), Some (AStr neutralColor), Some (ANum 0.5)))
           countries
   \<and> map paint (selectAll_path_country (fst (globe_svgNode env countries c code w)))
     = map (\<lambda>d. if iso3 d = code
                 then (Some (AStr highlightColor), Some (AStr highlightColor), Some (ANum 0.5))
                 else (Some (AStr neutralColor), Some (AStr neutralColor), Some (ANum 0.5)))
           countries
   \<and> highlightColor \<noteq> neutralColor"
  by (simp add: selectAll_svgNode selectAll_globe_svgNode paint_def countryPath_attrs
        globe_countryPath_attrs highlightColor_def neutralColor_def)

subsection \<open>Centring\<close>

lemma centre_rotate:
  "rotate' (centre env countries h p) =
     (if selected countries h = [] then rotate' p
      else (case geoBounds env (selected countries h) of
              ((minLon, minLat), (maxLon, maxLat)) \<Rightarrow>
                (- ((minLon + maxLon) / 2), - ((minLat + maxLat) / 2))))"
  by (simp add: centre_def Let_def split: prod.splits)

lemma find_matched:
  "find (\<lambda>d. iso3 d = code) countries =
     (case selected countries [code] of [] \<Rightarrow> None | t # ts \<Rightarrow> Some t)"
  by (induction countries) (auto simp: selected_def)

lemma boxMidpoint_plain:
  "\<not> crossesAntimeridian b \<Longrightarrow>
     boxMidpoint b = ((fst (fst b) + fst (snd b)) / 2, (snd (fst b) + snd (snd b)) / 2)"
  by (auto simp: boxMidpoint_def crossesAntimeridian_def split: prod.splits)

text \<open>
  C2, as amended. In part\_000 the rotation of the projection is \<open>(0, 0)\<close> when no loaded
  feature has a highlighted code. When some have one and the bounding box of all of them
  does not cross the antimeridian, it is the negated midpoint of that box. In
  create\_globe.js it is \<open>(0, 0)\<close> when no loaded feature has the code, and otherwise the
  negated centroid of the first feature that has it.
\<close>
theorem rotation_centering:
  "(selected countries highlightIso3 = [] \<longrightarrow>
      rotate' (centre env countries highlightIso3 (newProjection w h)) = (0, 0))
   \<and> (selected countries highlightIso3 \<noteq> [] \<longrightarrow>
      \<not> crossesAntimeridian (geoBounds env (selected countries highlightIso3)) \<longrightarrow>
      rotate' (centre env countries highlightIso3 (newProjection w h)) =
        (- fst (boxMidpoint (geoBounds env (selected countries highlightIso3))),
         - snd (boxMidpoint (geoBounds env (selected countries highlightIso3)))))
   \<and> rotate' (fst (globe_centre env countries code (newProjection w h) wd)) =
     (case selected countries [code] of
        [] \<Rightarrow> (0, 0)
      | target # others \<Rightarrow> (- fst (geoCentroid env target), - snd (geoCentroid env target)))"
proof (intro conjI impI)
  assume "selected countries highlightIso3 = []"
  then show "rotate' (centre env countries highlightIso3 (newProjection w h)) = (0, 0)"
    by (simp add: centre_rotate newProjection_def)
next
  assume ne: "selected countries highlightIso3 \<noteq> []"
    and le: "\<not> crossesAntimeridian (geoBounds env (selected countries highlightIso3))"
  show "rotate' (centre env countries highlightIso3 (newProjection w h)) =
        (- fst (boxMidpoint (geoBounds env (selected countries highlightIso3))),
         - snd (boxMidpoint (geoBounds env (selected countries highlightIso3))))"
    using ne by (simp add: centre_rotate boxMidpoint_plain [OF le] split: prod.splits)
next
  show "rotate' (fst (globe_centre env countries code (newProjection w h) wd)) =
     (case selected countries [code] of
        [] \<Rightarrow> (0, 0)
      | target # others \<Rightarrow> (- fst (geoCentroid env target), - snd (geoCentroid env target)))"
    by (simp add: find_matched globe_centre_def newProjection_def split: list.splits prod.splits)
qed

theorem rotation_centering_witness:
  "selected sample_countries [VStr ''ZZZ''] = []
   \<and> rotate' (centre sample_env sample_countries [VStr ''ZZZ''] (newProjection 800 800)) = (0, 0)
   \<and> selected sample_countries [VStr ''FRA'', VStr ''ETH''] \<noteq> []
   \<and> \<not> crossesAntimeridian (geoBounds sample_env (selected sample_countries [VStr ''FRA'', VStr ''ETH'']))
   \<and> boxMidpoint (geoBounds sample_env (selected sample_countries [VStr ''FRA'', VStr ''ETH''])) = (- (13 / 2), 25)
   \<and> rotate' (centre sample_env sample_countries [VStr ''FRA'', VStr ''ETH''] (newProjection 800 800))
       = (13 / 2, - 25)"
proof -
  let ?h = "[VStr ''FRA'', VStr ''ETH'']"
  have z: "selected sample_countries [VStr ''ZZZ''] = []" by code_simp
  have n: "selected sample_countries ?h \<noteq> []" by code_simp
  have b: "geoBounds sample_env (selected sample_countries ?h) = ((-53, 4), (40, 46))" by code_simp
  have le: "\<not> crossesAntimeridian (geoBounds sample_env (selected sample_countries ?h))"
    by (simp add: b crossesAntimeridian_def)
  have m: "boxMidpoint ((-53, 4), (40, 46)) = (- (13 / 2), 25)" by code_simp
  have r0: "rotate' (centre sample_env sample_countries [VStr ''ZZZ''] (newProjection 800 800)) = (0, 0)"
    using rotation_centering [of sample_countries "[VStr ''ZZZ'']" sample_env 800 800, THEN conjunct1, THEN mp, OF z] .
  have r1: "rotate' (centre sample_env sample_countries ?h (newProjection 800 800)) =
        (- fst (boxMidpoint (geoBounds sample_env (selected sample_countries ?h))),
         - snd (boxMidpoint (geoBounds sample_env (selected sample_countries ?h))))"
    using rotation_centering [of sample_countries ?h sample_env 800 800,
        THEN conjunct2, THEN conjunct1, THEN mp, THEN mp, OF n le] .
  show ?thesis
    using z n le b r0 r1 m by simp
qed

text \<open>
  C2 as stated fails in two ways. In create\_globe.js, with France and French Guiana
  loaded under the code FRA, the midpoint of the bounding box of the two is
  \<open>(-25.5, 25)\<close>, and the script rotates by \<open>(-2, -46)\<close>, the negated position of France
  alone. In part\_000, for Fiji with points at 178 and -178 degrees of longitude the
  bounding box runs from 178 east to -178 and its midpoint is at 180 degrees; the script
  takes the mean of the two corners, 0, and rotates by \<open>(0, 17)\<close>, which centres the image
  on the other side of the globe.
\<close>
theorem rotation_counterexample:
  "selected sample_countries [VStr ''FRA''] \<noteq> []
   \<and> rotate' (fst (globe_centre sample_env sample_countries (VStr ''FRA'') (newProjection 800 800)
                   (sample_world []))) = (- 2, - 46)
   \<and> boxMidpoint (geoBounds sample_env (selected sample_countries [VStr ''FRA''])) = (- (51 / 2), 25)
   \<and> selected sample_pacific [VStr ''FJI''] \<noteq> []
   \<and> geoBounds sample_env (selected sample_pacific [VStr ''FJI'']) = ((178, - 18), (- 178, - 16))
   \<and> crossesAntimeridian (geoBounds sample_env (selected sample_pacific [VStr ''FJI'']))
   \<and> rotate' (centre sample_env sample_pacific [VStr ''FJI''] (newProjection 800 800)) = (0, 17)
   \<and> boxMidpoint (geoBounds sample_env (selected sample_pacific [VStr ''FJI''])) = (180, - 17)"
  by code_simp

text \<open>
  C10. In batch mode every render highlights the code of a feature of
  \<open>mainCountries\<close>, which is a loaded feature: the selection is not empty, and
  \<open>centre\<close> takes the branch that rotates the projection, by the negated means of the
  corners of the bounding box of the selection.
\<close>
theorem batch_always_rotates:
  "feat \<in> set (mainCountries countries) \<Longrightarrow>
     selected countries [iso3 feat] \<noteq> []
     \<and> centre env countries [iso3 feat] p =
         (case geoBounds env (selected countries [iso3 feat]) of
            ((minLon, minLat), (maxLon, maxLat)) \<Rightarrow>
              p\<lparr>rotate' := (- ((minLon + maxLon) / 2), - ((minLat + maxLat) / 2))\<rparr>)"
proof -
  assume "feat \<in> set (mainCountries countries)"
  then have "feat \<in> set countries"
    by (simp add: mainCountries_def)
  then have "feat \<in> set (selected countries [iso3 feat])"
    by (simp add: selected_def)
  then have ne: "selected countries [iso3 feat] \<noteq> []"
    by auto
  then show ?thesis
    by (simp add: centre_def Let_def split: prod.splits)
qed

theorem batch_always_rotates_witness:
  "\<lparr>iso3 = VStr ''FRA'', secondary_territory = VNum 0, geometry = [(2, 46)]\<rparr>
      \<in> set (mainCountries sample_countries)
   \<and> selected sample_countries [VStr ''FRA''] \<noteq> []
   \<and> centre sample_env sample_countries [VStr ''FRA''] (newProjection 800 800)
       = (newProjection 800 800)\<lparr>rotate' := (51 / 2, - 25)\<rparr>"
proof -
  have m: "\<lparr>iso3 = VStr ''FRA'', secondary_territory = VNum 0, geometry = [(2, 46)]\<rparr>
      \<in> set (mainCountries sample_countries)"
    by (simp add: mainCountries_def sample_countries_def)
  have b: "geoBounds sample_env (selected sample_countries [VStr ''FRA'']) = ((- 53, 4), (2, 46))"
    by code_simp
  show ?thesis
    using m batch_always_rotates [OF m, of sample_env "newProjection 800 800"] b by simp
qed

subsection \<open>The command line\<close>

text \<open>
  C9. A value-taking option followed by any token \<open>v\<close>, an option name included, takes
  \<open>v\<close> as its value: the parse of the whole list is the parse of what follows \<open>v\<close>,
  from the settings in which only that option was assigned from \<open>v\<close>. So \<open>v\<close> is
  never dispatched on: it prints nothing, sets no flag and does not exit.
\<close>
theorem value_option_consumes_next:
  "takesValue a \<Longrightarrow> parseArgs (a # v # rest) c w = parseArgs rest (setOption a (Some v) c) w"
  by (auto simp: takesValue_def nextArg_def)

theorem value_option_consumes_next_witness:
  "takesValue ''--width''
   \<and> parseArgs [''--width'', ''--all''] cli0 (sample_world []) = (Inr cli0, sample_world [])
   \<and> width cli0 = 800 \<and> \<not> all cli0"
proof -
  have t: "takesValue ''--width''"
    by (simp add: takesValue_def)
  have s: "setOption ''--width'' (Some ''--all'') cli0 = cli0"
    by code_simp
  show ?thesis
    using t value_option_consumes_next [OF t, of "''--all''" "[]" cli0 "sample_world []"] s
    by (simp add: cli0_def)
qed

text \<open>
  C7, as amended. A width or height option whose value does not parse to a number leaves
  the settings and the console as they were, and the rest of the list is parsed: the
  dimension keeps the value it had, which is 800 unless an earlier option set it.
\<close>
theorem unparsable_dimension_unchanged:
  "a \<in> {''--width'', ''-w'', ''--height''} \<Longrightarrow> parseInt (nextArg rest) = None \<Longrightarrow>
     parseArgs (a # rest) c w = parseArgs (drop 1 rest) c w"
  by (auto simp: takesValue_def setOption_def intOr_def)

theorem unparsable_dimension_unchanged_witness:
  "''--width'' \<in> {''--width'', ''-w'', ''--height''}
   \<and> parseInt (nextArg [''abc'', ''--all'']) = None
   \<and> parseArgs [''--width'', ''abc'', ''--all''] cli0 (sample_world [])
       = (Inr (cli0\<lparr>all := True\<rparr>), sample_world [])"
proof -
  have a: "''--width'' \<in> {''--width'', ''-w'', ''--height''}"
    by simp
  have p: "parseInt (nextArg [''abc'', ''--all'']) = None"
    by code_simp
  have r: "parseArgs (drop 1 [''abc'', ''--all'']) cli0 (sample_world []) = (Inr (cli0\<lparr>all := True\<rparr>), sample_world [])"
    by (simp add: takesValue_def)
  show ?thesis
    using a p unparsable_dimension_unchanged [OF a p, of cli0 "sample_world []"] r by simp
qed

text \<open>
  C7 as stated fails: after \<^verbatim>\<open>--width 500 --width abc\<close> the width is 500, not the
  default 800.
\<close>
theorem unparsable_width_counterexample:
  "parseInt (Some ''abc'') = None
   \<and> fst (parseArgs [''--width'', ''500'', ''--width'', ''abc''] cli0 (sample_world []))
       = Inr (cli0\<lparr>width := 500\<rparr>)
   \<and> snd (parseArgs [''--width'', ''500'', ''--width'', ''abc''] cli0 (sample_world []))
       = sample_world []
   \<and> width (cli0\<lparr>width := 500\<rparr>) \<noteq> 800"
  by code_simp

subsection \<open>The loader\<close>

lemma load_decodes:
  assumes "existsSync env (fs w) inputTopoPath" "decoded env w = Some worldData"
    "getProp worldData ''objects'' = Some (JObj kvs)" "kvs \<noteq> []"
  shows "load env w =
     (case topojson_feature env worldData (topoObject (JObj kvs) (Object_keys (JObj kvs))) of
        None \<Rightarrow> (Inl (Uncaught TypeError), w)
      | Some countries \<Rightarrow> (Inr countries, w))"
proof -
  have "worldData \<noteq> JNull"
    using assms(3) by auto
  then show ?thesis
    using assms by (auto simp: load_def decoded_def objectsOrEmpty_def Let_def split: option.splits)
qed

text \<open>
  C6. When the dataset file decodes to a value whose \<^verbatim>\<open>objects\<close> is an object with at
  least one name, the loader hands to the topology decoder the object named
  \<^verbatim>\<open>countries\<close> when there is one (and it is truthy, as every collection is), and
  the first named object otherwise; what the decoder returns is the result of loading.
\<close>
theorem loader_chooses_collection:
  assumes "existsSync env (fs w) inputTopoPath"
    and "decoded env w = Some worldData"
    and "getProp worldData ''objects'' = Some (JObj kvs)"
    and "kvs \<noteq> []"
  shows "load env w =
     (case topojson_feature env worldData
             (case map_of kvs ''countries'' of
                Some collection \<Rightarrow> if truthy collection then Some collection else Some (snd (hd kvs))
              | None \<Rightarrow> Some (snd (hd kvs))) of
        None \<Rightarrow> (Inl (Uncaught TypeError), w)
      | Some countries \<Rightarrow> (Inr countries, w))"
proof -
  have "topoObject (JObj kvs) (Object_keys (JObj kvs)) =
          (case map_of kvs ''countries'' of
             Some collection \<Rightarrow> if truthy collection then Some collection else Some (snd (hd kvs))
           | None \<Rightarrow> Some (snd (hd kvs)))"
    using assms(4) by (cases kvs) (auto simp: topoObject_def topoKey_def nextArg_def split: option.splits)
  then show ?thesis
    using load_decodes [OF assms] by simp
qed

theorem loader_chooses_collection_witness:
  "load sample_env (sample_world (JSON_text sample_worldData)) =
     (Inr sample_countries, sample_world (JSON_text sample_worldData))
   \<and> load sample_env (sample_world (JSON_text sample_landData)) =
     (Inr [\<lparr>iso3 = VStr ''ETH'', secondary_territory = VNum 0, geometry = [(40, 9)]\<rparr>],
      sample_world (JSON_text sample_landData))"
proof -
  let ?w = "sample_world (JSON_text sample_worldData)"
  let ?l = "sample_world (JSON_text sample_landData)"
  let ?ks = "[(''countries'',
                 JObj [(''type'', JStr ''GeometryCollection''),
                       (''geometries'',
                          JArr [sample_geometry ''ETH'' 0 (40, 9),
                                sample_geometry ''FRA'' 0 (2, 46),
                                sample_geometry ''FRA'' 1 (-53, 4)])])]"
  let ?ls = "[(''land'',
                       JObj [(''type'', JStr ''GeometryCollection''),
                             (''geometries'', JArr [sample_geometry ''ETH'' 0 (40, 9)])]),
                    (''borders'',
                       JObj [(''type'', JStr ''GeometryCollection''), (''geometries'', JArr [])])]"
  have e1: "existsSync sample_env (fs ?w) inputTopoPath" by code_simp
  have d1: "decoded sample_env ?w = Some sample_worldData" by code_simp
  have o1: "getProp sample_worldData ''objects'' = Some (JObj ?ks)" by code_simp
  have n1: "?ks \<noteq> []" by simp
  have t1: "topojson_feature sample_env sample_worldData (Some (snd (hd ?ks))) = Some sample_countries"
    by code_simp
  have e2: "existsSync sample_env (fs ?l) inputTopoPath" by code_simp
  have d2: "decoded sample_env ?l = Some sample_landData" by code_simp
  have o2: "getProp sample_landData ''objects'' = Some (JObj ?ls)" by code_simp
  have n2: "?ls \<noteq> []" by simp
  have t2: "topojson_feature sample_env sample_landData (Some (snd (hd ?ls)))
              = Some [\<lparr>iso3 = VStr ''ETH'', secondary_territory = VNum 0, geometry = [(40, 9)]\<rparr>]"
    by code_simp
  show ?thesis
    using loader_chooses_collection [OF e1 d1 o1 n1] loader_chooses_collection [OF e2 d2 o2 n2] t1 t2
    by simp
qed

lemma load_exit_iff:
  "(\<exists>n. fst (load env w) = Inl (Exit n)) =
     (\<not> existsSync env (fs w) inputTopoPath
      \<or> (\<exists>worldData. decoded env w = Some worldData \<and> worldData \<noteq> JNull \<and> noNamedObjects worldData))"
  by (auto simp: load_def decoded_def noNamedObjects_def Let_def split: option.splits)

lemma load_exit_report:
  "fst (load env w) = Inl (Exit n) \<Longrightarrow>
     n = 1 \<and> snd (load env w) =
       console_error (if existsSync env (fs w) inputTopoPath then NoTopologyObjects
                      else TopoJSONNotFound inputTopoPath) w"
  by (auto simp: load_def decoded_def noNamedObjects_def Let_def split: option.splits if_splits)

lemma load_uncaught_iff:
  "(\<exists>e. fst (load env w) = Inl (Uncaught e)) =
     (existsSync env (fs w) inputTopoPath
      \<and> (case decoded env w of
           None \<Rightarrow> True
         | Some worldData \<Rightarrow>
             worldData = JNull
             \<or> (\<not> noNamedObjects worldData
                \<and> topojson_feature env worldData
                     (topoObject (objectsOrEmpty (getProp worldData ''objects''))
                        (Object_keys (objectsOrEmpty (getProp worldData ''objects'')))) = None)))"
  by (auto simp: load_def decoded_def noNamedObjects_def Let_def split: option.splits)

lemma load_quiet:
  "fst (load env w) \<noteq> Inl (Exit 1) \<Longrightarrow> snd (load env w) = w"
  by (auto simp: load_def Let_def split: option.splits if_splits)

text \<open>
  C5, as amended. The loader exits by itself in exactly two cases: the dataset file is
  absent, or it decodes to a value other than \<^verbatim>\<open>null\<close> that has no named objects.
  The status is then 1 and the one message printed is on the error stream. An exception
  ends the run as well, uncaught, exactly when the file is there and cannot be read or
  decoded, or decodes to \<^verbatim>\<open>null\<close>, or the topology decoder fails on the chosen
  object. In every other case loading returns the features; whenever it does not exit by
  itself it prints nothing.
\<close>
theorem load_outcomes:
  "((\<exists>n. fst (load env w) = Inl (Exit n)) =
      (\<not> existsSync env (fs w) inputTopoPath
       \<or> (\<exists>worldData. decoded env w = Some worldData \<and> worldData \<noteq> JNull
              \<and> noNamedObjects worldData)))
   \<and> (\<forall>n. fst (load env w) = Inl (Exit n) \<longrightarrow>
          n = 1 \<and> snd (load env w) =
            console_error (if existsSync env (fs w) inputTopoPath then NoTopologyObjects
                           else TopoJSONNotFound inputTopoPath) w)
   \<and> ((\<exists>e. fst (load env w) = Inl (Uncaught e)) =
      (existsSync env (fs w) inputTopoPath
       \<and> (case decoded env w of
            None \<Rightarrow> True
          | Some worldData \<Rightarrow>
              worldData = JNull
              \<or> (\<not> noNamedObjects worldData
                 \<and> topojson_feature env worldData
                      (topoObject (objectsOrEmpty (getProp worldData ''objects''))
                         (Object_keys (objectsOrEmpty (getProp worldData ''objects'')))) = None))))
   \<and> (fst (load env w) \<noteq> Inl (Exit 1) \<longrightarrow> snd (load env w) = w)"
  using load_exit_iff [of env w] load_exit_report [of env w] load_uncaught_iff [of env w]
    load_quiet [of env w]
  by blast

theorem load_outcomes_witness:
  "fst (load sample_env \<lparr>fs = [(''.'', Dir)], console = [], calls = []\<rparr>) = Inl (Exit 1)
   \<and> snd (load sample_env \<lparr>fs = [(''.'', Dir)], console = [], calls = []\<rparr>)
       = \<lparr>fs = [(''.'', Dir)], console = [(Stderr, TopoJSONNotFound inputTopoPath)], calls = []\<rparr>
   \<and> fst (load sample_env (sample_world (JSON_text (JObj [(''objects'', JObj [])])))) = Inl (Exit 1)
   \<and> console (snd (load sample_env (sample_world (JSON_text (JObj [(''objects'', JObj [])])))))
       = [(Stderr, NoTopologyObjects)]"
proof -
  let ?a = "\<lparr>fs = [(''.'', Dir)], console = [], calls = []\<rparr> :: sample_fs world"
  let ?e = "sample_world (JSON_text (JObj [(''objects'', JObj [])]))"
  have a1: "fst (load sample_env ?a) = Inl (Exit 1)" by code_simp
  have a2: "\<not> existsSync sample_env (fs ?a) inputTopoPath" by code_simp
  have e1: "fst (load sample_env ?e) = Inl (Exit 1)" by code_simp
  have e2: "existsSync sample_env (fs ?e) inputTopoPath" by code_simp
  have ra: "snd (load sample_env ?a) = console_error (TopoJSONNotFound inputTopoPath) ?a"
    using load_outcomes [of sample_env ?a, THEN conjunct2, THEN conjunct1, THEN spec, THEN mp, OF a1] a2
    by simp
  have re: "snd (load sample_env ?e) = console_error NoTopologyObjects ?e"
    using load_outcomes [of sample_env ?e, THEN conjunct2, THEN conjunct1, THEN spec, THEN mp, OF e1] e2
    by simp
  show ?thesis
    using a1 e1 ra re by (simp add: console_error_def sample_world_def)
qed

text \<open>
  C5 as stated fails: the file is there and decodes to a dataset with a named collection,
  and the run still ends at load time, on the \<^verbatim>\<open>TypeError\<close> of the topology decoder;
  so it does on a file that is there and is empty, on the \<^verbatim>\<open>SyntaxError\<close> of
  \<^verbatim>\<open>JSON.parse\<close>.
\<close>
theorem load_uncaught_counterexample:
  "existsSync sample_env (fs (sample_world (JSON_text sample_brokenData))) inputTopoPath
   \<and> decoded sample_env (sample_world (JSON_text sample_brokenData)) = Some sample_brokenData
   \<and> \<not> noNamedObjects sample_brokenData
   \<and> load sample_env (sample_world (JSON_text sample_brokenData))
       = (Inl (Uncaught TypeError), sample_world (JSON_text sample_brokenData))
   \<and> existsSync sample_env (fs (sample_world [])) inputTopoPath
   \<and> load sample_env (sample_world []) = (Inl (Uncaught SyntaxError), sample_world [])"
  by code_simp

subsection \<open>Batch mode\<close>




subsection \<open>Codes that match no feature\<close>

lemma batchLoop_console:
  "\<exists>names. console (snd (batchLoop env countries c dir feats w))
             = console w @ map (\<lambda>n. (Stdout, Written n)) names"
proof (induction feats arbitrary: w)
  case Nil
  have "console (snd (batchLoop env countries c dir [] w)) = console w @ map (\<lambda>n. (Stdout, Written n)) []"
    by simp
  then show ?case by blast
next
  case (Cons feat rest)
  let ?name = "path_join env dir (toText env (iso3 feat) @ ''.svg'')"
  let ?text = "generateSvg env countries c [iso3 feat]"
  show ?case
  proof (cases "writeFileSync env (fs w) ?name ?text")
    case None
    then have "console (snd (batchLoop env countries c dir (feat # rest) w))
                 = console w @ map (\<lambda>n. (Stdout, Written n)) []"
      by (simp add: Let_def writeAndReport_def)
    then show ?thesis by blast
  next
    case (Some fs')
    let ?w1 = "console_log (Written ?name) (w\<lparr>fs := fs', calls := calls w @ [WriteFile ?name ?text]\<rparr>)"
    have step: "batchLoop env countries c dir (feat # rest) w = batchLoop env countries c dir rest ?w1"
      using Some by (simp add: Let_def writeAndReport_def)
    obtain names where "console (snd (batchLoop env countries c dir rest ?w1))
                      = console ?w1 @ map (\<lambda>n. (Stdout, Written n)) names"
      using Cons.IH by blast
    then have "console (snd (batchLoop env countries c dir (feat # rest) w))
                 = console w @ map (\<lambda>n. (Stdout, Written n)) (?name # names)"
      using step by (simp add: console_log_def)
    then show ?thesis by blast
  qed
qed

lemma main_prints_only_reports:
  "\<exists>names. console (snd (main env countries c w)) = console w @ map (\<lambda>n. (Stdout, Written n)) names"
proof (cases "all c")
  case True
  show ?thesis
  proof (cases "ensureDir env (batchDir c) w")
    case (Pair r w1)
    have cw: "console w1 = console w"
      using Pair by (auto simp: ensureDir_def split: if_splits option.splits)
    show ?thesis
    proof (cases r)
      case (Inl h)
      then have "console (snd (main env countries c w)) = console w @ map (\<lambda>n. (Stdout, Written n)) []"
        using True Pair cw by (simp add: main_def)
      then show ?thesis by blast
    next
      case (Inr u)
      then show ?thesis
        using True Pair cw batchLoop_console [of env countries c "batchDir c" "mainCountries countries" w1]
        by (simp add: main_def)
    qed
  qed
next
  case False
  show ?thesis
  proof (cases "output' c")
    case None
    then have "console (snd (main env countries c w)) = console w @ map (\<lambda>n. (Stdout, Written n)) []"
      using False by (simp add: main_def)
    then show ?thesis by blast
  next
    case (Some out)
    show ?thesis
    proof (cases "writeFileSync env (fs w) out (generateSvg env countries c (map VStr (iso3List c)))")
      case None
      then have "console (snd (main env countries c w)) = console w @ map (\<lambda>n. (Stdout, Written n)) []"
        using False Some by (simp add: main_def writeAndReport_def)
      then show ?thesis by blast
    next
      case (Some fs')
      then have "console (snd (main env countries c w)) = console w @ map (\<lambda>n. (Stdout, Written n)) [out]"
        using False \<open>output' c = Some out\<close> by (simp add: main_def writeAndReport_def console_log_def)
      then show ?thesis by blast
    qed
  qed
qed

text \<open>
  C4 on a concrete run. No loaded feature has the code ZZZ. part\_000 renders and writes
  \<^verbatim>\<open>ZZZ.svg\<close>, and the report of the write is all it prints: no warning.
  create\_globe.js prints the warning for the same code.
\<close>
theorem unmatched_code_no_warning:
  "selected sample_countries [VStr ''ZZZ''] = []
   \<and> fst (program sample_env [''--iso3'', ''ZZZ''] (sample_world (JSON_text sample_worldData))) = Inr ()
   \<and> console (snd (program sample_env [''--iso3'', ''ZZZ''] (sample_world (JSON_text sample_worldData))))
       = [(Stdout, Written ''ZZZ.svg'')]
   \<and> console (snd (globe_generateSvg sample_env sample_countries cli0 (VStr ''ZZZ'') (sample_world [])))
       = [(Stderr, CodeNotFound (VStr ''ZZZ''))]"
  by code_simp

end
